theory Spec2Isabelle
  imports Main "HOL-Library.Sublist" "HOL-Library.Multiset"
begin

section \<open>Python values used by the study assistant\<close>

text \<open>
  Strings are lists of characters. A character stands for the code point of the same
  number (0 to 255), so the model covers texts in the Latin-1 range; on that range
  \<open>str.isspace\<close>, \<open>str.lower\<close> and the regular expression engine's \<open>\s\<close> and
  \<open>IGNORECASE\<close> agree with the two functions below.
\<close>

definition isspace :: "char \<Rightarrow> bool" where
  "isspace c = (let n = (of_char c :: nat) in
     (9 \<le> n \<and> n \<le> 13) \<or> (28 \<le> n \<and> n \<le> 32) \<or> n = 133 \<or> n = 160)"

definition lower_chr :: "char \<Rightarrow> char" where
  "lower_chr c = (let n = (of_char c :: nat) in
     if (65 \<le> n \<and> n \<le> 90) \<or> (192 \<le> n \<and> n \<le> 222 \<and> n \<noteq> 215)
     then char_of (n + 32) else c)"

text \<open>\<open>s.lower()\<close> and \<open>s.strip()\<close>.\<close>

definition lower :: "string \<Rightarrow> string" where
  "lower s = map lower_chr s"

definition strip :: "string \<Rightarrow> string" where
  "strip s = rev (dropWhile isspace (rev (dropWhile isspace s)))"

text \<open>\<open>s[a:b]\<close> for indices that are not negative.\<close>

definition slice :: "'a list \<Rightarrow> nat \<Rightarrow> nat \<Rightarrow> 'a list" where
  "slice s a b = take (b - a) (drop a s)"

text \<open>
  The exceptions the modelled code can meet. \<open>str.index\<close> and \<open>list.index\<close> raise
  \<open>ValueError\<close> when nothing is found; a dictionary lookup raises \<open>KeyError\<close>.
\<close>

datatype py_error = ValueError | IndexError | KeyError

text \<open>
  \<open>find_sub sub s p\<close> scans \<open>s\<close>, the text from position \<open>p\<close> on, for the lowest
  position at which \<open>sub\<close> starts. \<open>str_index s sub start\<close> is \<open>s.index(sub, start)\<close>
  with \<open>None\<close> for the \<open>ValueError\<close>, and \<open>str_contains sub s\<close> is \<open>sub in s\<close>.
\<close>

fun find_sub :: "string \<Rightarrow> string \<Rightarrow> nat \<Rightarrow> nat option" where
  "find_sub sub [] p = (if sub = [] then Some p else None)"
| "find_sub sub (c # s) p = (if prefix sub (c # s) then Some p else find_sub sub s (Suc p))"

definition str_index :: "string \<Rightarrow> string \<Rightarrow> nat \<Rightarrow> nat option" where
  "str_index s sub start =
     (if length s < start then None else find_sub sub (drop start s) start)"

definition str_contains :: "string \<Rightarrow> string \<Rightarrow> bool" where
  "str_contains sub s = (find_sub sub s 0 \<noteq> None)"

text \<open>\<open>xs.index(x)\<close>: the position of the first element equal to \<open>x\<close>.\<close>

fun list_index_from :: "'a list \<Rightarrow> 'a \<Rightarrow> nat \<Rightarrow> nat option" where
  "list_index_from [] x i = None"
| "list_index_from (y # ys) x i = (if y = x then Some i else list_index_from ys x (Suc i))"

definition list_index :: "'a list \<Rightarrow> 'a \<Rightarrow> nat option" where
  "list_index xs x = list_index_from xs x 0"

text \<open>Decimal digits of a number, as an f-string prints it.\<close>

fun str_of_nat :: "nat \<Rightarrow> string" where
  "str_of_nat n =
     (if n < 10 then [char_of (48 + n)]
      else str_of_nat (n div 10) @ [char_of (48 + n mod 10)])"

declare str_of_nat.simps [simp del]

section \<open>Student classification\<close>

text \<open>
  \<open>classify_student\<close> of \<open>app.py\<close> and of \<open>summarizer_backend.py\<close> (the two copies are
  the same chain of comparisons). The marks are an integer in \<open>app.py\<close> (a slider) and
  a float between 0 and 100 in \<open>summarizer_backend.py\<close>; the comparisons with the
  integer thresholds are exact on both, so the function is stated for any ordered
  number type.
\<close>

definition classify_student :: "'a::linordered_idom \<Rightarrow> string" where
  "classify_student marks =
     (if marks < 50 then ''Needs Improvement''
      else if 50 \<le> marks \<and> marks < 70 then ''Average''
      else if 70 \<le> marks \<and> marks < 85 then ''Good''
      else if 85 \<le> marks \<and> marks < 95 then ''Excellent''
      else ''Advanced Learner'')"

section \<open>Study scheduler\<close>

text \<open>\<open>assign_priority_and_duration\<close> of \<open>app.py\<close>.\<close>

definition app_assign_priority_and_duration :: "int \<Rightarrow> string \<times> nat" where
  "app_assign_priority_and_duration sc =
     (if sc \<ge> 80 then (''Low'', 30)
      else if sc \<ge> 60 then (''Medium'', 60)
      else (''High'', 90))"

text \<open>\<open>assign_priority_and_duration\<close> of \<open>schedule.py\<close>.\<close>

definition schedule_assign_priority_and_duration :: "int \<Rightarrow> string \<times> nat" where
  "schedule_assign_priority_and_duration sc =
     (if sc \<ge> 80 then (''Easy'', 30)
      else if sc \<ge> 60 then (''Medium'', 60)
      else (''Hard'', 90))"

text \<open>
  A subject as the form collects it, and the entries the two schedulers append:
  \<open>app.py\<close> stores topic, priority and duration, \<open>schedule.py\<close> stores the score too.
\<close>

record subject =
  name :: string
  score :: int

record task =
  topic :: string
  priority :: string
  recommended_duration :: string

record scored_task = task +
  task_score :: int

definition week_days :: "string list" where
  "week_days = [''Monday'', ''Tuesday'', ''Wednesday'', ''Thursday'', ''Friday'',
                ''Saturday'', ''Sunday'']"

text \<open>\<open>{day: [] for day in week_days}\<close> and \<open>schedule[day].append(t)\<close>.\<close>

definition empty_schedule :: "string \<rightharpoonup> 'a list" where
  "empty_schedule = map_of (map (\<lambda>day. (day, [])) week_days)"

definition append_task :: "(string \<rightharpoonup> 'a list) \<Rightarrow> string \<Rightarrow> 'a \<Rightarrow> py_error + (string \<rightharpoonup> 'a list)" where
  "append_task sched day t =
     (case sched day of
        None \<Rightarrow> Inl KeyError
      | Some ts \<Rightarrow> Inr (sched(day \<mapsto> ts @ [t])))"

definition app_task :: "subject \<Rightarrow> task" where
  "app_task s =
     (let (p, duration) = app_assign_priority_and_duration (score s)
      in \<lparr>topic = name s, priority = p,
          recommended_duration = str_of_nat duration @ '' min''\<rparr>)"

definition schedule_task :: "subject \<Rightarrow> scored_task" where
  "schedule_task s =
     (let (p, duration) = schedule_assign_priority_and_duration (score s)
      in \<lparr>topic = name s, priority = p,
          recommended_duration = str_of_nat duration @ '' min'',
          task_score = score s\<rparr>)"

text \<open>
  The assignment loop of \<open>app.py\<close>: \<open>i\<close> counts the subjects placed so far.
\<close>

fun app_assign :: "subject list \<Rightarrow> nat \<Rightarrow> (string \<rightharpoonup> task list) \<Rightarrow> py_error + (string \<rightharpoonup> task list)" where
  "app_assign [] i sched = Inr sched"
| "app_assign (s # ss) i sched =
     (case append_task sched (week_days ! (i mod length week_days)) (app_task s) of
        Inl e \<Rightarrow> Inl e
      | Inr sched' \<Rightarrow> app_assign ss (Suc i) sched')"

text \<open>
  The submit handler of the scheduler tab in \<open>app.py\<close>: subjects whose name is blank
  are dropped, a warning is shown when none is left, otherwise the subjects are sorted
  by score (a stable sort, lowest first) and placed. \<open>schedule.py\<close> keeps the order of
  the form and skips a subject only when its name is the empty string.
\<close>

datatype 'a reply = Warning string | Raises py_error | Plan 'a

definition app_schedule :: "subject list \<Rightarrow> (string \<rightharpoonup> task list) reply" where
  "app_schedule subjects =
     (let valid_topics = filter (\<lambda>s. strip (name s) \<noteq> []) subjects in
      if valid_topics = [] then Warning ''Please enter at least one subject name.''
      else (case app_assign (sort_key score valid_topics) 0 empty_schedule of
              Inl e \<Rightarrow> Raises e
            | Inr sched \<Rightarrow> Plan sched))"

fun schedule_assign :: "subject list \<Rightarrow> nat \<Rightarrow> (string \<rightharpoonup> scored_task list) \<Rightarrow> py_error + (string \<rightharpoonup> scored_task list)" where
  "schedule_assign [] i sched = Inr sched"
| "schedule_assign (s # ss) i sched =
     (if name s \<noteq> [] then
        (case append_task sched (week_days ! (i mod length week_days)) (schedule_task s) of
           Inl e \<Rightarrow> Inl e
         | Inr sched' \<Rightarrow> schedule_assign ss (Suc i) sched')
      else schedule_assign ss i sched)"

definition schedule_py :: "subject list \<Rightarrow> (string \<rightharpoonup> scored_task list) reply" where
  "schedule_py subjects =
     (case schedule_assign subjects 0 empty_schedule of
        Inl e \<Rightarrow> Raises e
      | Inr sched \<Rightarrow> Plan sched)"

section \<open>Topic locator\<close>

subsection \<open>The locator of \<open>app.py\<close>\<close>

text \<open>
  The body of the \<open>try\<close> block of \<open>get_text_for_topic\<close> in \<open>app.py\<close>: both searches
  run on the lower-cased text, the slice is taken from the text as given.
\<close>

definition app_locate :: "string \<Rightarrow> string \<Rightarrow> string list \<Rightarrow> py_error + string" where
  "app_locate full_text selected_topic all_titles =
     (case str_index (lower full_text) (lower selected_topic) 0 of
        None \<Rightarrow> Inl ValueError
      | Some start_index \<Rightarrow>
          (case list_index all_titles selected_topic of
             None \<Rightarrow> Inl ValueError
           | Some current \<Rightarrow>
               (let end_index =
                  (if current + 1 < length all_titles then
                     (case str_index (lower full_text) (lower (all_titles ! (current + 1)))
                             (start_index + 1) of
                        None \<Rightarrow> length full_text
                      | Some e \<Rightarrow> e)
                   else length full_text)
                in Inr (slice full_text start_index end_index))))"

text \<open>
  \<open>get_text_for_topic\<close> of \<open>app.py\<close>. An empty selection, or one that contains
  \<open>entire document\<close> in any letter case, denotes the whole document. The handler
  \<open>except (ValueError, IndexError)\<close> turns a failed lookup into the whole document.
\<close>

definition app_get_text_for_topic :: "string \<Rightarrow> string \<Rightarrow> string list \<Rightarrow> py_error + string" where
  "app_get_text_for_topic full_text selected_topic all_titles =
     (if selected_topic = [] \<or> str_contains ''entire document'' (lower selected_topic)
      then Inr full_text
      else (case app_locate full_text selected_topic all_titles of
              Inl ValueError \<Rightarrow> Inr full_text
            | Inl IndexError \<Rightarrow> Inr full_text
            | Inl e \<Rightarrow> Inl e
            | Inr section_text \<Rightarrow> Inr section_text))"

subsection \<open>The locator of \<open>summarizer_backend.py\<close>\<close>

text \<open>
  The heading pattern is \<open>(?:^|\n|\r\n)\s*\<close>, the escaped heading, \<open>[\s\.]*\<close>, searched
  with \<open>IGNORECASE\<close> and \<open>MULTILINE\<close>. The functions below follow the backtracking
  matcher on this pattern. Each returns the text left after the part it matched.

  \<open>match_literal\<close>: the heading, letter case ignored.
\<close>

fun match_literal :: "string \<Rightarrow> string \<Rightarrow> string option" where
  "match_literal [] s = Some s"
| "match_literal (c # cs) [] = None"
| "match_literal (c # cs) (d # ds) =
     (if lower_chr c = lower_chr d then match_literal cs ds else None)"

text \<open>
  \<open>heading_tail\<close>: the heading and then the greedy \<open>[\s\.]*\<close>, which always succeeds
  with the longest run.
\<close>

definition heading_tail :: "string \<Rightarrow> string \<Rightarrow> string option" where
  "heading_tail lit s =
     map_option (dropWhile (\<lambda>c. isspace c \<or> c = CHR ''.'')) (match_literal lit s)"

text \<open>
  \<open>spaces_heading\<close>: the greedy \<open>\s*\<close> followed by the rest. The longest run of
  white space is tried first, then one character less, down to none.
\<close>

fun spaces_heading :: "string \<Rightarrow> string \<Rightarrow> string option" where
  "spaces_heading lit [] = heading_tail lit []"
| "spaces_heading lit (c # s) =
     (if isspace c then
        (case spaces_heading lit s of
           Some r \<Rightarrow> Some r
         | None \<Rightarrow> heading_tail lit (c # s))
      else heading_tail lit (c # s))"

text \<open>
  \<open>match_at\<close>: the three alternatives of the group in their order, at one position.
  \<open>bol\<close> says that the position is the start of the searched text or follows a line
  feed, which is where \<open>^\<close> matches under \<open>MULTILINE\<close>.
\<close>

definition match_at :: "bool \<Rightarrow> string \<Rightarrow> string \<Rightarrow> string option" where
  "match_at bol lit s =
     (case (if bol then spaces_heading lit s else None) of
        Some r \<Rightarrow> Some r
      | None \<Rightarrow>
          (case (case s of c # s' \<Rightarrow> if c = CHR 0x0A then spaces_heading lit s' else None
                          | [] \<Rightarrow> None) of
             Some r \<Rightarrow> Some r
           | None \<Rightarrow>
               (case s of
                  c # d # s' \<Rightarrow>
                    if c = CHR 0x0D \<and> d = CHR 0x0A then spaces_heading lit s' else None
                | _ \<Rightarrow> None)))"

text \<open>
  \<open>search_from\<close>: \<open>re.search\<close> tries the positions from left to right and returns the
  first match as (start, end). \<open>s\<close> is the text from position \<open>p\<close> on.
\<close>

fun search_from :: "bool \<Rightarrow> string \<Rightarrow> string \<Rightarrow> nat \<Rightarrow> (nat \<times> nat) option" where
  "search_from bol lit [] p =
     (case match_at bol lit [] of
        Some r \<Rightarrow> Some (p, p)
      | None \<Rightarrow> None)"
| "search_from bol lit (c # s) p =
     (case match_at bol lit (c # s) of
        Some r \<Rightarrow> Some (p, p + (length (c # s) - length r))
      | None \<Rightarrow> search_from (c = CHR 0x0A) lit s (Suc p))"

definition re_search_heading :: "string \<Rightarrow> string \<Rightarrow> (nat \<times> nat) option" where
  "re_search_heading heading text = search_from True (strip heading) text 0"

text \<open>
  The loop over \<open>all_titles\<close>: once a title equal to the selection (stripped, letter
  case ignored) has been seen, every later title that is not equal to it is searched
  in the text after the start match, and the first one found ends the section.
\<close>

fun find_end :: "string \<Rightarrow> nat \<Rightarrow> string \<Rightarrow> string list \<Rightarrow> bool \<Rightarrow> nat" where
  "find_end full_text start_idx_content selected_topic [] current_topic_found =
     length full_text"
| "find_end full_text start_idx_content selected_topic (title # titles) current_topic_found =
     (if lower (strip title) = lower (strip selected_topic) then
        find_end full_text start_idx_content selected_topic titles True
      else if current_topic_found then
        (case re_search_heading title (drop start_idx_content full_text) of
           Some (next_start, next_end) \<Rightarrow> start_idx_content + next_start
         | None \<Rightarrow> find_end full_text start_idx_content selected_topic titles True)
      else find_end full_text start_idx_content selected_topic titles False)"

text \<open>
  \<open>extracted_section\<close>: the narrowed text \<open>get_text_for_topic\<close> computes, \<open>None\<close> where
  the function returns before it narrows (an empty argument, or no start match).
\<close>

definition extracted_section :: "string \<Rightarrow> string \<Rightarrow> string list \<Rightarrow> string option" where
  "extracted_section full_text selected_topic all_titles =
     (if selected_topic = [] \<or> all_titles = [] \<or> full_text = [] then None
      else (case re_search_heading selected_topic full_text of
              None \<Rightarrow> None
            | Some (match_start, start_idx_content) \<Rightarrow>
                (let end_idx_content =
                   find_end full_text start_idx_content selected_topic all_titles False
                 in Some (strip (slice full_text start_idx_content end_idx_content)))))"

text \<open>\<open>get_text_for_topic\<close> of \<open>summarizer_backend.py\<close>.\<close>

definition backend_get_text_for_topic :: "string \<Rightarrow> string \<Rightarrow> string list \<Rightarrow> string" where
  "backend_get_text_for_topic full_text selected_topic all_titles =
     (case extracted_section full_text selected_topic all_titles of
        None \<Rightarrow> full_text
      | Some section_text \<Rightarrow>
          if length section_text < 50 \<and> length full_text > 100 then full_text
          else section_text)"

section \<open>Quiz questions\<close>

text \<open>
  A value as \<open>json.loads\<close> returns it. An object is kept as its list of members; only
  the presence of a key is ever asked, and no check reads a number, so numbers are
  kept as integers.
\<close>

datatype json =
    JNull
  | JBool bool
  | JNumber int
  | JString string
  | JArray "json list"
  | JObject "(string \<times> json) list"

text \<open>\<open>isinstance(q, str)\<close>, and \<open>isinstance(q, dict) and k in q\<close>.\<close>

definition is_str :: "json \<Rightarrow> bool" where
  "is_str q = (case q of JString _ \<Rightarrow> True | _ \<Rightarrow> False)"

definition dict_has :: "string \<Rightarrow> json \<Rightarrow> bool" where
  "dict_has k q = (case q of JObject members \<Rightarrow> k \<in> set (map fst members) | _ \<Rightarrow> False)"

text \<open>
  The validation block of \<open>generate_questions\<close> in \<open>qna.py\<close>, applied to the parsed
  model output: the list itself when every item has the shape of the question type,
  the empty list otherwise. Only the five types below reach the block; for any other
  type \<open>generate_questions\<close> has returned the empty list before the request is made.
\<close>

definition qna_validate :: "string \<Rightarrow> json \<Rightarrow> json list" where
  "qna_validate question_type questions =
     (case questions of
        JArray qs \<Rightarrow>
          if question_type = ''open-ended'' then
            (if list_all is_str qs then qs else [])
          else if question_type = ''mcq'' then
            (if list_all (\<lambda>q. dict_has ''question'' q \<and> dict_has ''options'' q \<and>
                               dict_has ''correct_answer'' q) qs
             then qs else [])
          else if question_type = ''true/false'' then
            (if list_all (\<lambda>q. dict_has ''statement'' q \<and> dict_has ''correct_answer'' q) qs
             then qs else [])
          else if question_type = ''fill-in-the-blanks'' then
            (if list_all (\<lambda>q. dict_has ''question'' q \<and> dict_has ''correct_answer'' q) qs
             then qs else [])
          else if question_type = ''mixed'' then qs
          else []
      | _ \<Rightarrow> [])"

text \<open>
  \<open>parsed\<close> is the outcome of \<open>json.loads\<close> on the model's text, \<open>None\<close> for a
  \<open>JSONDecodeError\<close>, which the function answers with the empty list.
\<close>

definition qna_questions :: "string \<Rightarrow> json option \<Rightarrow> json list" where
  "qna_questions question_type parsed =
     (case parsed of
        None \<Rightarrow> []
      | Some questions \<Rightarrow> qna_validate question_type questions)"

text \<open>
  \<open>app.py\<close>: \<open>generate_questions\<close> hands back what the model call returned (\<open>None\<close>
  after a failed call), and the quiz tab keeps it when it is a list that is not empty
  and reports a failure otherwise. No item is inspected.
\<close>

definition app_generate_questions :: "json option \<Rightarrow> json option" where
  "app_generate_questions api_result = api_result"

definition app_quiz :: "json option \<Rightarrow> string + json list" where
  "app_quiz api_result =
     (case app_generate_questions api_result of
        Some (JArray qs) \<Rightarrow>
          if qs \<noteq> [] then Inr qs
          else Inl ''Failed to generate quiz. The API might have returned an unexpected format. Please try again.''
      | _ \<Rightarrow> Inl ''Failed to generate quiz. The API might have returned an unexpected format. Please try again.'')"

section \<open>Notions used to state the properties\<close>

text \<open>
  \<open>share k i xs\<close>: the elements of \<open>xs\<close> that a round over the week, started at
  count \<open>i\<close>, gives to the day of index \<open>k\<close>.
\<close>

fun share :: "nat \<Rightarrow> nat \<Rightarrow> 'a list \<Rightarrow> 'a list" where
  "share k i [] = []"
| "share k i (x # xs) =
     (if i mod 7 = k then x # share k (Suc i) xs else share k (Suc i) xs)"

text \<open>The topics a reply lists on a day (\<open>None\<close> when there is no plan or no such day).\<close>

definition topics_on :: "(string \<rightharpoonup> 'a task_scheme list) reply \<Rightarrow> string \<Rightarrow> string list option" where
  "topics_on r day =
     (case r of
        Plan sched \<Rightarrow> map_option (map topic) (sched day)
      | _ \<Rightarrow> None)"

section \<open>Auxiliary facts\<close>

subsection \<open>Lists and strings\<close>

lemma sublist_trans: "sublist xs ys \<Longrightarrow> sublist ys zs \<Longrightarrow> sublist xs zs"
  using sublist_order.order_trans by blast

lemma sublist_strip: "sublist (strip s) s"
proof -
  have "sublist (rev (strip s)) (rev (dropWhile isspace s))"
    by (simp add: strip_def)
  then have "sublist (strip s) (dropWhile isspace s)"
    by (simp only: sublist_rev)
  then show ?thesis
    using sublist_dropWhile sublist_trans by blast
qed

lemma sublist_slice: "sublist (slice s a b) s"
  unfolding slice_def using sublist_take sublist_drop sublist_trans by blast



subsection \<open>The week and the round over it\<close>

lemma week_days_distinct: "distinct week_days"
  by (simp add: week_days_def)

lemma week_days_length: "length week_days = 7"
  by (simp add: week_days_def)

lemma week_days_inj: "j < 7 \<Longrightarrow> k < 7 \<Longrightarrow> (week_days ! j = week_days ! k) = (j = k)"
  using week_days_distinct by (simp add: nth_eq_iff_index_eq week_days_length)

lemma empty_schedule_day:
  "k < 7 \<Longrightarrow> (empty_schedule :: string \<rightharpoonup> 'a list) (week_days ! k) = Some []"
proof -
  assume "k < 7"
  then have "week_days ! k \<in> set week_days"
    by (simp add: week_days_length)
  then show ?thesis
    unfolding empty_schedule_def
    by (simp add: map_of_map_restrict restrict_map_def)
qed

lemma share_nth:
  "share k i xs = map (nth xs) (filter (\<lambda>j. (i + j) mod 7 = k) [0..<length xs])"
proof (induction xs arbitrary: i)
  case Nil
  then show ?case by simp
next
  case (Cons x xs)
  have up: "[0..<length (x # xs)] = 0 # map Suc [0..<length xs]"
    by (simp add: upt_conv_Cons map_Suc_upt del: upt_Suc)
  show ?case
    unfolding up by (simp add: Cons.IH filter_map comp_def)
qed

lemma count_mod7:
  "k < 7 \<Longrightarrow>
   length (filter (\<lambda>j. j mod 7 = k) [0..<n]) = n div 7 + (if k < n mod 7 then 1 else 0)"
proof (induction n)
  case 0
  then show ?case by simp
next
  case (Suc n)
  then show ?case
    by (simp add: mod_Suc div_Suc)
qed

lemma length_share:
  "k < 7 \<Longrightarrow> length (share k 0 xs) = length xs div 7 + (if k < length xs mod 7 then 1 else 0)"
  by (simp add: share_nth count_mod7)

text \<open>
  Both assignment loops end with a plan, and the plan of a day is what it held before
  followed by the day's share of the placed subjects.
\<close>

lemma app_assign_share:
  "\<forall>k<7. \<exists>ts. sched (week_days ! k) = Some ts \<Longrightarrow>
   \<exists>sched'. app_assign ss i sched = Inr sched' \<and>
      (\<forall>k<7. sched' (week_days ! k) =
          Some (the (sched (week_days ! k)) @ map app_task (share k i ss)))"
proof (induction ss arbitrary: i sched)
  case Nil
  then show ?case by auto
next
  case (Cons s ss)
  let ?d = "week_days ! (i mod 7)"
  from Cons.prems obtain ts where ts: "sched ?d = Some ts"
    by (meson mod_less_divisor zero_less_numeral)
  let ?sched1 = "sched(?d \<mapsto> ts @ [app_task s])"
  have step: "append_task sched (week_days ! (i mod length week_days)) (app_task s) = Inr ?sched1"
    by (simp add: append_task_def week_days_length ts)
  have dom1: "\<forall>k<7. \<exists>ts. ?sched1 (week_days ! k) = Some ts"
    using Cons.prems by simp
  from Cons.IH[OF dom1, of "Suc i"] obtain sched' where
    r: "app_assign ss (Suc i) ?sched1 = Inr sched'" and
    c: "\<forall>k<7. sched' (week_days ! k) =
          Some (the (?sched1 (week_days ! k)) @ map app_task (share k (Suc i) ss))"
    by blast
  have "app_assign (s # ss) i sched = Inr sched'"
    by (simp add: step r)
  moreover have "sched' (week_days ! k) =
      Some (the (sched (week_days ! k)) @ map app_task (share k i (s # ss)))" if "k < 7" for k
  proof (cases "i mod 7 = k")
    case True
    then show ?thesis using c that ts by simp
  next
    case False
    then have "week_days ! k \<noteq> ?d"
      using that by (simp add: week_days_inj)
    then show ?thesis using c that False by simp
  qed
  ultimately show ?case by blast
qed

lemma schedule_assign_share:
  "\<forall>k<7. \<exists>ts. sched (week_days ! k) = Some ts \<Longrightarrow>
   \<exists>sched'. schedule_assign ss i sched = Inr sched' \<and>
      (\<forall>k<7. sched' (week_days ! k) =
          Some (the (sched (week_days ! k)) @
                map schedule_task (share k i (filter (\<lambda>s. name s \<noteq> []) ss))))"
proof (induction ss arbitrary: i sched)
  case Nil
  then show ?case by auto
next
  case (Cons s ss)
  show ?case
  proof (cases "name s \<noteq> []")
    case False
    then show ?thesis
      using Cons.IH[OF Cons.prems, of i] by simp
  next
    case True
    let ?d = "week_days ! (i mod 7)"
    from Cons.prems obtain ts where ts: "sched ?d = Some ts"
      by (meson mod_less_divisor zero_less_numeral)
    let ?sched1 = "sched(?d \<mapsto> ts @ [schedule_task s])"
    have step: "append_task sched (week_days ! (i mod length week_days)) (schedule_task s) =
        Inr ?sched1"
      by (simp add: append_task_def week_days_length ts)
    have dom1: "\<forall>k<7. \<exists>ts. ?sched1 (week_days ! k) = Some ts"
      using Cons.prems by simp
    from Cons.IH[OF dom1, of "Suc i"] obtain sched' where
      r: "schedule_assign ss (Suc i) ?sched1 = Inr sched'" and
      c: "\<forall>k<7. sched' (week_days ! k) =
            Some (the (?sched1 (week_days ! k)) @
                  map schedule_task (share k (Suc i) (filter (\<lambda>s. name s \<noteq> []) ss)))"
      by blast
    have "schedule_assign (s # ss) i sched = Inr sched'"
      using True by (simp add: step r)
    moreover have "sched' (week_days ! k) =
        Some (the (sched (week_days ! k)) @
              map schedule_task (share k i (filter (\<lambda>s. name s \<noteq> []) (s # ss))))"
      if "k < 7" for k
    proof (cases "i mod 7 = k")
      case eq: True
      then show ?thesis using c that ts True by simp
    next
      case ne: False
      then have "week_days ! k \<noteq> ?d"
        using that by (simp add: week_days_inj)
      then show ?thesis using c that ne True by simp
    qed
    ultimately show ?thesis by blast
  qed
qed

lemma app_schedule_plan:
  assumes "filter (\<lambda>s. strip (name s) \<noteq> []) subjects \<noteq> []"
  shows "\<exists>sched. app_schedule subjects = Plan sched \<and>
     (\<forall>k<7. sched (week_days ! k) =
        Some (map app_task
               (share k 0 (sort_key score (filter (\<lambda>s. strip (name s) \<noteq> []) subjects)))))"
proof -
  have "\<forall>k<7. \<exists>ts. (empty_schedule :: string \<rightharpoonup> task list) (week_days ! k) = Some ts"
    by (simp add: empty_schedule_day)
  from app_assign_share[OF this, of "sort_key score (filter (\<lambda>s. strip (name s) \<noteq> []) subjects)" 0]
  obtain sched where
    "app_assign (sort_key score (filter (\<lambda>s. strip (name s) \<noteq> []) subjects)) 0 empty_schedule
       = Inr sched"
    "\<forall>k<7. sched (week_days ! k) =
       Some (the (empty_schedule (week_days ! k)) @
             map app_task
               (share k 0 (sort_key score (filter (\<lambda>s. strip (name s) \<noteq> []) subjects))))"
    by blast
  then show ?thesis
    using assms by (simp add: app_schedule_def empty_schedule_day)
qed

lemma schedule_py_plan:
  "\<exists>sched. schedule_py subjects = Plan sched \<and>
     (\<forall>k<7. sched (week_days ! k) =
        Some (map schedule_task (share k 0 (filter (\<lambda>s. name s \<noteq> []) subjects))))"
proof -
  have "\<forall>k<7. \<exists>ts. (empty_schedule :: string \<rightharpoonup> scored_task list) (week_days ! k) = Some ts"
    by (simp add: empty_schedule_day)
  from schedule_assign_share[OF this, of subjects 0]
  obtain sched where
    "schedule_assign subjects 0 empty_schedule = Inr sched"
    "\<forall>k<7. sched (week_days ! k) =
       Some (the (empty_schedule (week_days ! k)) @
             map schedule_task (share k 0 (filter (\<lambda>s. name s \<noteq> []) subjects)))"
    by blast
  then show ?thesis
    by (simp add: schedule_py_def empty_schedule_day)
qed

lemma topic_app_task: "topic (app_task s) = name s"
  by (simp add: app_task_def split: prod.splits)

lemma map_over_week: "map f week_days = map (\<lambda>k. f (week_days ! k)) [0..<7]"
proof -
  have "map f week_days = map f (map (nth week_days) [0..<length week_days])"
    by (simp only: map_nth)
  also have "\<dots> = map (\<lambda>k. f (week_days ! k)) [0..<7]"
    by (simp only: map_map comp_def week_days_length)
  finally show ?thesis .
qed

lemma share_positions:
  "map f (share k 0 xs) = map (\<lambda>j. f (xs ! j)) (filter (\<lambda>j. j mod 7 = k) [0..<length xs])"
  by (simp add: share_nth comp_def)

lemma load_floor_or_ceiling:
  fixes n k c :: nat
  assumes "c = n div 7 + (if k < n mod 7 then 1 else 0)"
  shows "(c = n div 7 \<or> c = (n + 6) div 7) \<and> (n \<le> 7 \<longrightarrow> c \<le> 1)"
proof (cases "k < n mod 7")
  case True
  then have "0 < n mod 7" by simp
  then have "(n + 6) div 7 = n div 7 + 1" by presburger
  moreover have "n \<le> 7 \<longrightarrow> n div 7 = 0" using True by (cases "n = 7") auto
  ultimately show ?thesis using assms True by simp
next
  case False
  have "n \<le> 7 \<longrightarrow> n div 7 \<le> 1" by presburger
  then show ?thesis using assms False by simp
qed

section \<open>The claims\<close>

subsection \<open>Scheduler\<close>

text \<open>
  C1 (as amended). The scheduler of \<open>app.py\<close> drops the subjects whose name is blank,
  ranks the rest by ascending score (a sorted rearrangement of them) and gives the
  subject at position \<open>j\<close> of that ranking to weekday \<open>j mod 7\<close>: the list of weekday
  \<open>k\<close> holds the subjects at the positions \<open>j\<close> with \<open>j mod 7 = k\<close>, in increasing
  \<open>j\<close>. When no subject is left it shows a warning and builds no schedule. The
  scheduler of \<open>schedule.py\<close> drops only the subjects whose name is the empty string
  and deals the rest over the week in the order of the form, without sorting.
\<close>

theorem scheduler_round_robin:
  "(let valid = filter (\<lambda>s. strip (name s) \<noteq> []) subjects;
        ranked = sort_key score valid
    in sorted (map score ranked) \<and> mset ranked = mset valid \<and>
       (valid = [] \<longrightarrow>
          app_schedule subjects = Warning ''Please enter at least one subject name.'') \<and>
       (valid \<noteq> [] \<longrightarrow>
          (\<exists>sched. app_schedule subjects = Plan sched \<and>
             (\<forall>k<7. sched (week_days ! k) =
                Some (map (\<lambda>j. app_task (ranked ! j))
                       (filter (\<lambda>j. j mod 7 = k) [0..<length ranked])))))) \<and>
   (let kept = filter (\<lambda>s. name s \<noteq> []) subjects
    in \<exists>sched. schedule_py subjects = Plan sched \<and>
         (\<forall>k<7. sched (week_days ! k) =
            Some (map (\<lambda>j. schedule_task (kept ! j))
                   (filter (\<lambda>j. j mod 7 = k) [0..<length kept]))))"
proof -
  let ?valid = "filter (\<lambda>s. strip (name s) \<noteq> []) subjects"
  have warn: "?valid = [] \<longrightarrow>
      app_schedule subjects = Warning ''Please enter at least one subject name.''"
    by (simp add: app_schedule_def)
  have plan: "?valid \<noteq> [] \<longrightarrow>
      (\<exists>sched. app_schedule subjects = Plan sched \<and>
         (\<forall>k<7. sched (week_days ! k) =
            Some (map (\<lambda>j. app_task (sort_key score ?valid ! j))
                   (filter (\<lambda>j. j mod 7 = k) [0..<length (sort_key score ?valid)]))))"
    using app_schedule_plan[of subjects] by (simp only: share_positions) blast
  have py: "\<exists>sched. schedule_py subjects = Plan sched \<and>
         (\<forall>k<7. sched (week_days ! k) =
            Some (map (\<lambda>j. schedule_task (filter (\<lambda>s. name s \<noteq> []) subjects ! j))
                   (filter (\<lambda>j. j mod 7 = k)
                      [0..<length (filter (\<lambda>s. name s \<noteq> []) subjects)])))"
    using schedule_py_plan[of subjects] by (simp only: share_positions)
  show ?thesis
    unfolding Let_def
    by (intro conjI) (simp, simp, rule warn, rule plan, rule py)
qed

text \<open>
  The scenario of C1 in \<open>app.py\<close>, derived from the theorem: Math (40), Art (90) and
  Bio (65) are placed Monday = Math, Tuesday = Bio, Wednesday = Art, and the other
  four days stay empty; a form with one blank name gets the warning.
\<close>

theorem scheduler_round_robin_witness:
  "filter (\<lambda>s. strip (name s) \<noteq> [])
      [\<lparr>name = ''Math'', score = 40\<rparr>, \<lparr>name = ''Art'', score = 90\<rparr>,
       \<lparr>name = ''Bio'', score = 65\<rparr>] \<noteq> [] \<and>
   map (topics_on (app_schedule
      [\<lparr>name = ''Math'', score = 40\<rparr>, \<lparr>name = ''Art'', score = 90\<rparr>,
       \<lparr>name = ''Bio'', score = 65\<rparr>])) week_days =
     [Some [''Math''], Some [''Bio''], Some [''Art''], Some [], Some [], Some [], Some []] \<and>
   filter (\<lambda>s. strip (name s) \<noteq> []) [\<lparr>name = '' '', score = 75\<rparr>] = [] \<and>
   app_schedule [\<lparr>name = '' '', score = 75\<rparr>] =
     Warning ''Please enter at least one subject name.''"
proof -
  let ?ex = "[\<lparr>name = ''Math'', score = 40\<rparr>, \<lparr>name = ''Art'', score = 90\<rparr>,
       \<lparr>name = ''Bio'', score = 65\<rparr>]"
  have blank: "filter (\<lambda>s. strip (name s) \<noteq> []) [\<lparr>name = '' '', score = 75\<rparr>] = []"
    by code_simp
  have warned: "app_schedule [\<lparr>name = '' '', score = 75\<rparr>] =
      Warning ''Please enter at least one subject name.''"
    using scheduler_round_robin[of "[\<lparr>name = '' '', score = 75\<rparr>]"]
    unfolding Let_def blank by blast
  let ?ranked = "[\<lparr>name = ''Math'', score = 40\<rparr>, \<lparr>name = ''Bio'', score = 65\<rparr>,
       \<lparr>name = ''Art'', score = 90\<rparr>]"
  have valid: "filter (\<lambda>s. strip (name s) \<noteq> []) ?ex = ?ex"
    by code_simp
  have ranked: "sort_key score ?ex = ?ranked"
    by code_simp
  have names: "map (\<lambda>k. map (\<lambda>j. name (?ranked ! j)) (filter (\<lambda>j. j mod 7 = k) [0..<3]))
        [0..<7] = [[''Math''], [''Bio''], [''Art''], [], [], [], []]"
    by code_simp
  from scheduler_round_robin[of ?ex] obtain sched where
    p: "app_schedule ?ex = Plan sched" and
    d: "\<forall>k<7. sched (week_days ! k) =
          Some (map (\<lambda>j. app_task (sort_key score ?ex ! j))
                 (filter (\<lambda>j. j mod 7 = k) [0..<length (sort_key score ?ex)]))"
    unfolding Let_def valid by blast
  have day: "topics_on (app_schedule ?ex) (week_days ! k) =
      Some (map (\<lambda>j. name (?ranked ! j)) (filter (\<lambda>j. j mod 7 = k) [0..<3]))"
    if "k < 7" for k
  proof -
    have len: "length ?ranked = 3"
      by simp
    from d that have "sched (week_days ! k) =
        Some (map (\<lambda>j. app_task (sort_key score ?ex ! j))
               (filter (\<lambda>j. j mod 7 = k) [0..<length (sort_key score ?ex)]))"
      by blast
    then have "sched (week_days ! k) =
        Some (map (\<lambda>j. app_task (?ranked ! j)) (filter (\<lambda>j. j mod 7 = k) [0..<3]))"
      by (simp only: ranked len)
    then show ?thesis
      unfolding p topics_on_def by (simp add: comp_def topic_app_task)
  qed
  have "map (topics_on (app_schedule ?ex)) week_days =
      map (\<lambda>k. topics_on (app_schedule ?ex) (week_days ! k)) [0..<7]"
    by (rule map_over_week)
  also have "\<dots> = map (\<lambda>k. Some (map (\<lambda>j. name (?ranked ! j))
        (filter (\<lambda>j. j mod 7 = k) [0..<3]))) [0..<7]"
    by (rule map_cong) (simp_all add: day)
  also have "\<dots> = map Some (map (\<lambda>k. map (\<lambda>j. name (?ranked ! j))
        (filter (\<lambda>j. j mod 7 = k) [0..<3])) [0..<7])"
    by (simp only: map_map comp_def)
  also have "\<dots> = [Some [''Math''], Some [''Bio''], Some [''Art''], Some [], Some [], Some [], Some []]"
    unfolding names by simp
  finally show ?thesis
    using valid blank warned by simp
qed

text \<open>
  C1 fails as stated on \<open>schedule.py\<close>: on the input of the scenario Tuesday is Art
  and Wednesday is Bio, the order of the form.
\<close>

theorem schedule_py_unsorted:
  "topics_on (schedule_py
      [\<lparr>name = ''Math'', score = 40\<rparr>, \<lparr>name = ''Art'', score = 90\<rparr>,
       \<lparr>name = ''Bio'', score = 65\<rparr>]) ''Tuesday'' = Some [''Art''] \<and>
   topics_on (schedule_py
      [\<lparr>name = ''Math'', score = 40\<rparr>, \<lparr>name = ''Art'', score = 90\<rparr>,
       \<lparr>name = ''Bio'', score = 65\<rparr>]) ''Wednesday'' = Some [''Bio''] \<and>
   topics_on (schedule_py
      [\<lparr>name = ''Math'', score = 40\<rparr>, \<lparr>name = ''Art'', score = 90\<rparr>,
       \<lparr>name = ''Bio'', score = 65\<rparr>]) ''Tuesday'' \<noteq> Some [''Bio'']"
  by code_simp

text \<open>
  C10 (as amended). A scheduling run that places \<open>n\<close> subjects gives weekday \<open>k\<close>
  exactly \<open>n div 7\<close> entries, and one more when \<open>k < n mod 7\<close>: every day has the
  floor or the ceiling of \<open>n / 7\<close> entries, and at most one entry when \<open>n \<le> 7\<close>. In
  \<open>app.py\<close> the subjects placed are those with a non-blank name, and a schedule is
  built when \<open>n\<close> is not zero. In \<open>schedule.py\<close> the subjects placed are those whose
  name is not the empty string, so a name of white space alone counts there.
\<close>

theorem daily_load_balanced:
  "(let n = length (filter (\<lambda>s. strip (name s) \<noteq> []) subjects)
    in n \<noteq> 0 \<longrightarrow>
       (\<exists>sched. app_schedule subjects = Plan sched \<and>
          (\<forall>k<7. \<exists>ts. sched (week_days ! k) = Some ts \<and>
             length ts = n div 7 + (if k < n mod 7 then 1 else 0) \<and>
             (length ts = n div 7 \<or> length ts = (n + 6) div 7) \<and>
             (n \<le> 7 \<longrightarrow> length ts \<le> 1)))) \<and>
   (let n = length (filter (\<lambda>s. name s \<noteq> []) subjects)
    in \<exists>sched. schedule_py subjects = Plan sched \<and>
          (\<forall>k<7. \<exists>ts. sched (week_days ! k) = Some ts \<and>
             length ts = n div 7 + (if k < n mod 7 then 1 else 0) \<and>
             (length ts = n div 7 \<or> length ts = (n + 6) div 7) \<and>
             (n \<le> 7 \<longrightarrow> length ts \<le> 1)))"
proof -
  let ?valid = "filter (\<lambda>s. strip (name s) \<noteq> []) subjects"
  let ?kept = "filter (\<lambda>s. name s \<noteq> []) subjects"
  have app: "\<exists>sched. app_schedule subjects = Plan sched \<and>
          (\<forall>k<7. \<exists>ts. sched (week_days ! k) = Some ts \<and>
             length ts = length ?valid div 7 + (if k < length ?valid mod 7 then 1 else 0) \<and>
             (length ts = length ?valid div 7 \<or> length ts = (length ?valid + 6) div 7) \<and>
             (length ?valid \<le> 7 \<longrightarrow> length ts \<le> 1))"
    if "length ?valid \<noteq> 0"
  proof -
    from that have "?valid \<noteq> []" by simp
    from app_schedule_plan[OF this] obtain sched where
      p: "app_schedule subjects = Plan sched" and
      d: "\<forall>k<7. sched (week_days ! k) = Some (map app_task (share k 0 (sort_key score ?valid)))"
      by blast
    have "\<exists>ts. sched (week_days ! k) = Some ts \<and>
             length ts = length ?valid div 7 + (if k < length ?valid mod 7 then 1 else 0) \<and>
             (length ts = length ?valid div 7 \<or> length ts = (length ?valid + 6) div 7) \<and>
             (length ?valid \<le> 7 \<longrightarrow> length ts \<le> 1)" if "k < 7" for k
    proof -
      let ?ts = "map app_task (share k 0 (sort_key score ?valid))"
      have c: "length ?ts = length ?valid div 7 + (if k < length ?valid mod 7 then 1 else 0)"
        using that by (simp add: length_share)
      from load_floor_or_ceiling[OF c] c d that show ?thesis by blast
    qed
    with p show ?thesis by blast
  qed
  have py: "\<exists>sched. schedule_py subjects = Plan sched \<and>
          (\<forall>k<7. \<exists>ts. sched (week_days ! k) = Some ts \<and>
             length ts = length ?kept div 7 + (if k < length ?kept mod 7 then 1 else 0) \<and>
             (length ts = length ?kept div 7 \<or> length ts = (length ?kept + 6) div 7) \<and>
             (length ?kept \<le> 7 \<longrightarrow> length ts \<le> 1))"
  proof -
    from schedule_py_plan[of subjects] obtain sched where
      p: "schedule_py subjects = Plan sched" and
      d: "\<forall>k<7. sched (week_days ! k) = Some (map schedule_task (share k 0 ?kept))"
      by blast
    have "\<exists>ts. sched (week_days ! k) = Some ts \<and>
             length ts = length ?kept div 7 + (if k < length ?kept mod 7 then 1 else 0) \<and>
             (length ts = length ?kept div 7 \<or> length ts = (length ?kept + 6) div 7) \<and>
             (length ?kept \<le> 7 \<longrightarrow> length ts \<le> 1)" if "k < 7" for k
    proof -
      let ?ts = "map schedule_task (share k 0 ?kept)"
      have c: "length ?ts = length ?kept div 7 + (if k < length ?kept mod 7 then 1 else 0)"
        using that by (simp add: length_share)
      from load_floor_or_ceiling[OF c] c d that show ?thesis by blast
    qed
    with p show ?thesis by blast
  qed
  show ?thesis
    unfolding Let_def using app py by blast
qed

text \<open>
  C10 on nine subjects, one of them blank: \<open>app.py\<close> places eight, so Monday holds two
  entries and Tuesday one. On two subjects Monday holds at most one.
\<close>

theorem daily_load_balanced_witness:
  "length (filter (\<lambda>s. strip (name s) \<noteq> [])
      (\<lparr>name = '' '', score = 10\<rparr> # map (\<lambda>i. \<lparr>name = ''S'', score = i\<rparr>) [1, 2, 3, 4, 5, 6, 7, 8]))
     = 8 \<and>
   (\<exists>sched ts us. app_schedule
      (\<lparr>name = '' '', score = 10\<rparr> # map (\<lambda>i. \<lparr>name = ''S'', score = i\<rparr>) [1, 2, 3, 4, 5, 6, 7, 8])
        = Plan sched \<and>
      sched ''Monday'' = Some ts \<and> length ts = 2 \<and>
      sched ''Tuesday'' = Some us \<and> length us = 1) \<and>
   length (filter (\<lambda>s. strip (name s) \<noteq> [])
      [\<lparr>name = ''Math'', score = 40\<rparr>, \<lparr>name = ''Art'', score = 90\<rparr>]) \<le> 7 \<and>
   (\<exists>sched ts. app_schedule
      [\<lparr>name = ''Math'', score = 40\<rparr>, \<lparr>name = ''Art'', score = 90\<rparr>] = Plan sched \<and>
      sched ''Monday'' = Some ts \<and> length ts \<le> 1)"
proof -
  let ?ex = "\<lparr>name = '' '', score = 10\<rparr> #
      map (\<lambda>i. \<lparr>name = ''S'', score = i\<rparr>) [1, 2, 3, 4, 5, 6, 7, 8]"
  have n: "length (filter (\<lambda>s. strip (name s) \<noteq> []) ?ex) = 8"
    by code_simp
  have pos: "(8::nat) \<noteq> 0"
    by simp
  note inst = daily_load_balanced[of ?ex, unfolded Let_def n]
  from inst pos obtain sched where
    p: "app_schedule ?ex = Plan sched" and
    d: "\<forall>k<7. \<exists>ts. sched (week_days ! k) = Some ts \<and>
          length ts = 8 div 7 + (if k < 8 mod 7 then 1 else 0) \<and>
          (length ts = 8 div 7 \<or> length ts = (8 + 6) div 7) \<and>
          ((8::nat) \<le> 7 \<longrightarrow> length ts \<le> 1)"
    by blast
  have mon: "week_days ! 0 = ''Monday''" and tue: "week_days ! 1 = ''Tuesday''"
    by (simp_all add: week_days_def)
  have "(0::nat) < 7" and "(1::nat) < 7"
    by simp_all
  with d obtain ts us where
    "sched (week_days ! 0) = Some ts"
    "length ts = 8 div 7 + (if (0::nat) < 8 mod 7 then 1 else 0)"
    "sched (week_days ! 1) = Some us"
    "length us = 8 div 7 + (if (1::nat) < 8 mod 7 then 1 else 0)"
    by metis
  then have ts: "sched ''Monday'' = Some ts" "length ts = 2"
    and us: "sched ''Tuesday'' = Some us" "length us = 1"
    unfolding mon tue by simp_all
  let ?two = "[\<lparr>name = ''Math'', score = 40\<rparr>, \<lparr>name = ''Art'', score = 90\<rparr>]"
  have n2: "length (filter (\<lambda>s. strip (name s) \<noteq> []) ?two) = 2"
    by code_simp
  have pos2: "(2::nat) \<noteq> 0" and small: "(2::nat) \<le> 7"
    by simp_all
  note inst2 = daily_load_balanced[of ?two, unfolded Let_def n2]
  from inst2 pos2 obtain sched2 where
    p2: "app_schedule ?two = Plan sched2" and
    d2: "\<forall>k<7. \<exists>ts. sched2 (week_days ! k) = Some ts \<and>
          length ts = 2 div 7 + (if k < 2 mod 7 then 1 else 0) \<and>
          (length ts = 2 div 7 \<or> length ts = (2 + 6) div 7) \<and>
          ((2::nat) \<le> 7 \<longrightarrow> length ts \<le> 1)"
    by blast
  from d2 \<open>(0::nat) < 7\<close> small obtain vs where
    "sched2 (week_days ! 0) = Some vs" "length vs \<le> 1"
    by metis
  then have vs: "sched2 ''Monday'' = Some vs" "length vs \<le> 1"
    unfolding mon by simp_all
  have n2': "length (filter (\<lambda>s. strip (name s) \<noteq> []) ?two) \<le> 7"
    unfolding n2 by simp
  from n p ts us n2' p2 vs show ?thesis by blast
qed

text \<open>
  C10 fails as stated on \<open>schedule.py\<close> when \<open>n\<close> counts the non-blank names: of
  the subjects A to G and one subject named by a single space, seven have a non-blank
  name, yet \<open>schedule.py\<close> places all eight and Monday holds two entries.
\<close>

theorem schedule_py_places_blank_names:
  "length (filter (\<lambda>s. strip (name s) \<noteq> [])
      (map (\<lambda>n. \<lparr>name = n, score = 50\<rparr>)
         [''A'', ''B'', ''C'', ''D'', ''E'', ''F'', ''G'', '' ''])) = 7 \<and>
   topics_on (schedule_py
      (map (\<lambda>n. \<lparr>name = n, score = 50\<rparr>)
         [''A'', ''B'', ''C'', ''D'', ''E'', ''F'', ''G'', '' ''])) ''Monday'' = Some [''A'', '' ''] \<and>
   length [''A'', '' ''] = 2 \<and>
   (2::nat) \<noteq> 7 div 7 \<and> (2::nat) \<noteq> (7 + 6) div 7 \<and> \<not> (2::nat) \<le> 1"
  by code_simp

text \<open>
  C2 (as amended). \<open>assign_priority_and_duration\<close> of \<open>app.py\<close> returns Low and 30
  minutes for a score of at least 80, Medium and 60 minutes for a score from 60 up to
  79, High and 90 minutes for a score under 60. The function of the same name in
  \<open>schedule.py\<close> has the same thresholds and durations and the labels Easy, Medium
  and Hard.
\<close>

theorem priority_and_duration_thresholds:
  "(80 \<le> sc \<longrightarrow>
      app_assign_priority_and_duration sc = (''Low'', 30) \<and>
      schedule_assign_priority_and_duration sc = (''Easy'', 30)) \<and>
   (60 \<le> sc \<and> sc < 80 \<longrightarrow>
      app_assign_priority_and_duration sc = (''Medium'', 60) \<and>
      schedule_assign_priority_and_duration sc = (''Medium'', 60)) \<and>
   (sc < 60 \<longrightarrow>
      app_assign_priority_and_duration sc = (''High'', 90) \<and>
      schedule_assign_priority_and_duration sc = (''Hard'', 90))"
  by (simp add: app_assign_priority_and_duration_def schedule_assign_priority_and_duration_def)

theorem priority_and_duration_thresholds_witness:
  "(80::int) \<le> 85 \<and> app_assign_priority_and_duration 85 = (''Low'', 30) \<and>
   (60::int) \<le> 65 \<and> (65::int) < 80 \<and> app_assign_priority_and_duration 65 = (''Medium'', 60) \<and>
   (40::int) < 60 \<and> app_assign_priority_and_duration 40 = (''High'', 90)"
  using priority_and_duration_thresholds[of 85] priority_and_duration_thresholds[of 65]
    priority_and_duration_thresholds[of 40]
  by simp

text \<open>
  C2 fails as stated on \<open>schedule.py\<close>: a score of 85 is labelled Easy, not Low, and a
  score of 40 is labelled Hard, not High.
\<close>

theorem schedule_py_labels:
  "schedule_assign_priority_and_duration 85 = (''Easy'', 30) \<and>
   schedule_assign_priority_and_duration 85 \<noteq> (''Low'', 30) \<and>
   schedule_assign_priority_and_duration 40 = (''Hard'', 90) \<and>
   schedule_assign_priority_and_duration 40 \<noteq> (''High'', 90)"
  by (simp add: schedule_assign_priority_and_duration_def)

subsection \<open>Student classification\<close>

text \<open>
  C7. \<open>classify_student\<close> maps a score to one of five levels by fixed thresholds:
  under 50 Needs Improvement, from 50 under 70 Average, from 70 under 85 Good, from 85
  under 95 Excellent, from 95 on Advanced Learner. In particular 45 is Needs
  Improvement, 92 is Excellent and 97 is Advanced Learner.
\<close>

theorem classify_student_levels:
  fixes marks :: "'a::linordered_idom"
  shows
  "(marks < 50 \<longrightarrow> classify_student marks = ''Needs Improvement'') \<and>
   (50 \<le> marks \<and> marks < 70 \<longrightarrow> classify_student marks = ''Average'') \<and>
   (70 \<le> marks \<and> marks < 85 \<longrightarrow> classify_student marks = ''Good'') \<and>
   (85 \<le> marks \<and> marks < 95 \<longrightarrow> classify_student marks = ''Excellent'') \<and>
   (95 \<le> marks \<longrightarrow> classify_student marks = ''Advanced Learner'') \<and>
   classify_student marks \<in>
     {''Needs Improvement'', ''Average'', ''Good'', ''Excellent'', ''Advanced Learner''} \<and>
   classify_student (45::'a) = ''Needs Improvement'' \<and>
   classify_student (92::'a) = ''Excellent'' \<and>
   classify_student (97::'a) = ''Advanced Learner''"
  by (simp add: classify_student_def)

theorem classify_student_levels_witness:
  "(45::int) < 50 \<and> classify_student (45::int) = ''Needs Improvement'' \<and>
   (50::int) \<le> 60 \<and> (60::int) < 70 \<and> classify_student (60::int) = ''Average'' \<and>
   (70::int) \<le> 75 \<and> (75::int) < 85 \<and> classify_student (75::int) = ''Good'' \<and>
   (85::int) \<le> 92 \<and> (92::int) < 95 \<and> classify_student (92::int) = ''Excellent'' \<and>
   (95::int) \<le> 97 \<and> classify_student (97::int) = ''Advanced Learner''"
  using classify_student_levels[of "45::int"] classify_student_levels[of "60::int"]
    classify_student_levels[of "75::int"] classify_student_levels[of "92::int"]
    classify_student_levels[of "97::int"]
  by simp

subsection \<open>Topic locator\<close>















lemma extracted_section_sublist:
  "extracted_section full_text sel titles = Some sec \<Longrightarrow> sublist sec full_text"
  unfolding extracted_section_def
  by (auto simp: Let_def split: if_splits option.splits
      intro: sublist_trans[OF sublist_strip sublist_slice])

lemma app_locate_cases:
  "app_locate full_text sel titles = Inl ValueError \<or>
   (\<exists>a b. app_locate full_text sel titles = Inr (slice full_text a b))"
  unfolding app_locate_def
  by (auto simp: Let_def split: option.splits)

text \<open>
  C9. Whatever the text, the selection and the titles, \<open>get_text_for_topic\<close> returns
  the text itself or a contiguous part of it. The locator of \<open>app.py\<close> always returns
  (no exception leaves it: a failed lookup yields the text), and the locator of
  \<open>summarizer_backend.py\<close> has no raising step at all.
\<close>

theorem locator_returns_part_of_text:
  "(\<exists>r. app_get_text_for_topic full_text selected_topic all_titles = Inr r \<and>
        (r = full_text \<or> sublist r full_text)) \<and>
   (app_locate full_text selected_topic all_titles = Inl ValueError \<longrightarrow>
      app_get_text_for_topic full_text selected_topic all_titles = Inr full_text) \<and>
   (backend_get_text_for_topic full_text selected_topic all_titles = full_text \<or>
    sublist (backend_get_text_for_topic full_text selected_topic all_titles) full_text) \<and>
   (re_search_heading selected_topic full_text = None \<longrightarrow>
      backend_get_text_for_topic full_text selected_topic all_titles = full_text)"
proof (intro conjI impI)
  show "\<exists>r. app_get_text_for_topic full_text selected_topic all_titles = Inr r \<and>
        (r = full_text \<or> sublist r full_text)"
    using app_locate_cases[of full_text selected_topic all_titles]
    unfolding app_get_text_for_topic_def
    by (auto simp: sublist_slice)
next
  assume "app_locate full_text selected_topic all_titles = Inl ValueError"
  then show "app_get_text_for_topic full_text selected_topic all_titles = Inr full_text"
    by (simp add: app_get_text_for_topic_def)
next
  have "sublist (backend_get_text_for_topic full_text selected_topic all_titles) full_text"
    unfolding backend_get_text_for_topic_def
    by (auto split: option.splits dest: extracted_section_sublist)
  then show "backend_get_text_for_topic full_text selected_topic all_titles = full_text \<or>
    sublist (backend_get_text_for_topic full_text selected_topic all_titles) full_text"
    by simp
next
  assume "re_search_heading selected_topic full_text = None"
  then show "backend_get_text_for_topic full_text selected_topic all_titles = full_text"
    by (simp add: backend_get_text_for_topic_def extracted_section_def)
qed

text \<open>
  C9 on a text in which the selection does not occur: both lookups fail and both
  locators return the text.
\<close>

theorem locator_returns_part_of_text_witness:
  "app_locate ''alpha beta'' ''Gamma'' [''Gamma''] = Inl ValueError \<and>
   app_get_text_for_topic ''alpha beta'' ''Gamma'' [''Gamma''] = Inr ''alpha beta'' \<and>
   re_search_heading ''Gamma'' ''alpha beta'' = None \<and>
   backend_get_text_for_topic ''alpha beta'' ''Gamma'' [''Gamma''] = ''alpha beta''"
proof -
  have a: "app_locate ''alpha beta'' ''Gamma'' [''Gamma''] = Inl ValueError"
    by code_simp
  have b: "re_search_heading ''Gamma'' ''alpha beta'' = None"
    by code_simp
  from locator_returns_part_of_text[of "''alpha beta''" "''Gamma''" "[''Gamma'']"] a b
  show ?thesis by blast
qed

text \<open>
  C6. A selection that denotes the entire document gives the text back unchanged. In
  \<open>app.py\<close> that is the empty selection or one that contains \<open>entire document\<close> in any
  letter case (the entries \<open>Summarize Entire Document\<close> and \<open>Entire Document\<close> of the
  menus); in \<open>summarizer_backend.py\<close> the function is not called for the entire
  document, and its own whole-document case is the empty selection.
\<close>

theorem entire_document_is_identity:
  "(selected_topic = [] \<or> str_contains ''entire document'' (lower selected_topic) \<longrightarrow>
      app_get_text_for_topic full_text selected_topic all_titles = Inr full_text) \<and>
   app_get_text_for_topic full_text ''Summarize Entire Document'' all_titles = Inr full_text \<and>
   app_get_text_for_topic full_text ''Entire Document'' all_titles = Inr full_text \<and>
   backend_get_text_for_topic full_text [] all_titles = full_text"
proof -
  have a: "str_contains ''entire document'' (lower ''Summarize Entire Document'')"
    by code_simp
  have b: "str_contains ''entire document'' (lower ''Entire Document'')"
    by code_simp
  show ?thesis
    using a b
    by (simp add: app_get_text_for_topic_def backend_get_text_for_topic_def
        extracted_section_def)
qed

theorem entire_document_is_identity_witness:
  "str_contains ''entire document'' (lower ''the ENTIRE Document, please'') \<and>
   app_get_text_for_topic ''Intro\<newline>body'' ''the ENTIRE Document, please'' [''Intro''] =
     Inr ''Intro\<newline>body''"
proof -
  have a: "str_contains ''entire document'' (lower ''the ENTIRE Document, please'')"
    by code_simp
  from entire_document_is_identity[of "''the ENTIRE Document, please''" "''Intro\<newline>body''" "[''Intro'']"] a
  show ?thesis by blast
qed

text \<open>
  C3 (as amended). In \<open>summarizer_backend.py\<close> a narrowed section under 50 characters
  is discarded when the text is longer than 100 characters: the function returns the
  text, so for such a text its result is the text or has at least 50 characters. The
  locator of \<open>app.py\<close> has no such fallback: it returns the narrowed section whatever
  its length.
\<close>

theorem short_section_fallback:
  "(extracted_section full_text selected_topic all_titles = Some section_text \<and>
    length section_text < 50 \<and> 100 < length full_text \<longrightarrow>
      backend_get_text_for_topic full_text selected_topic all_titles = full_text) \<and>
   (100 < length full_text \<longrightarrow>
      backend_get_text_for_topic full_text selected_topic all_titles = full_text \<or>
      50 \<le> length (backend_get_text_for_topic full_text selected_topic all_titles)) \<and>
   (selected_topic \<noteq> [] \<and> \<not> str_contains ''entire document'' (lower selected_topic) \<and>
    app_locate full_text selected_topic all_titles = Inr narrowed \<longrightarrow>
      app_get_text_for_topic full_text selected_topic all_titles = Inr narrowed)"
  by (auto simp: backend_get_text_for_topic_def app_get_text_for_topic_def
      split: option.splits)

text \<open>
  C3 on a text of 114 characters whose section under \<open>Intro\<close> is \<open>ab\<close>: the backend
  returns the text. On a short text \<open>app.py\<close> returns the section its lookup found.
\<close>

theorem short_section_fallback_witness:
  "extracted_section (''Intro\<newline>ab\<newline>Chap\<newline>'' @ replicate 100 (CHR ''x'')) ''Intro''
      [''Intro'', ''Chap''] = Some ''ab'' \<and>
   length ''ab'' < 50 \<and>
   100 < length (''Intro\<newline>ab\<newline>Chap\<newline>'' @ replicate 100 (CHR ''x'')) \<and>
   backend_get_text_for_topic (''Intro\<newline>ab\<newline>Chap\<newline>'' @ replicate 100 (CHR ''x'')) ''Intro''
      [''Intro'', ''Chap''] = ''Intro\<newline>ab\<newline>Chap\<newline>'' @ replicate 100 (CHR ''x'') \<and>
   ''Intro'' \<noteq> [] \<and> \<not> str_contains ''entire document'' (lower ''Intro'') \<and>
   app_locate ''Intro\<newline>ab\<newline>Chap\<newline>'' ''Intro'' [''Intro'', ''Chap''] = Inr ''Intro\<newline>ab\<newline>'' \<and>
   app_get_text_for_topic ''Intro\<newline>ab\<newline>Chap\<newline>'' ''Intro'' [''Intro'', ''Chap''] =
     Inr ''Intro\<newline>ab\<newline>''"
proof -
  let ?ft = "''Intro\<newline>ab\<newline>Chap\<newline>'' @ replicate 100 (CHR ''x'')"
  have s: "extracted_section ?ft ''Intro'' [''Intro'', ''Chap''] = Some ''ab''"
    by code_simp
  have l: "length ''ab'' < 50" "100 < length ?ft"
    by simp_all
  from short_section_fallback[of ?ft "''Intro''" "[''Intro'', ''Chap'']" "''ab''"] s l
  have bres: "backend_get_text_for_topic ?ft ''Intro'' [''Intro'', ''Chap''] = ?ft"
    by blast
  have n: "''Intro'' \<noteq> []" "\<not> str_contains ''entire document'' (lower ''Intro'')"
    by code_simp+
  have a: "app_locate ''Intro\<newline>ab\<newline>Chap\<newline>'' ''Intro'' [''Intro'', ''Chap''] =
      Inr ''Intro\<newline>ab\<newline>''"
    by code_simp
  from short_section_fallback[of "''Intro\<newline>ab\<newline>Chap\<newline>''" "''Intro''" "[''Intro'', ''Chap'']"
      _ "''Intro\<newline>ab\<newline>''"] n a
  have app: "app_get_text_for_topic ''Intro\<newline>ab\<newline>Chap\<newline>'' ''Intro'' [''Intro'', ''Chap''] =
      Inr ''Intro\<newline>ab\<newline>''"
    by blast
  from s l bres n a app show ?thesis
    by blast
qed

text \<open>
  C3 fails as stated on \<open>app.py\<close>: on the same text the narrowed section has 9
  characters and is returned as it is.
\<close>

theorem app_returns_short_section:
  "app_get_text_for_topic (''Intro\<newline>ab\<newline>Chap\<newline>'' @ replicate 100 (CHR ''x'')) ''Intro''
      [''Intro'', ''Chap''] = Inr ''Intro\<newline>ab\<newline>'' \<and>
   length ''Intro\<newline>ab\<newline>'' < 50 \<and>
   100 < length (''Intro\<newline>ab\<newline>Chap\<newline>'' @ replicate 100 (CHR ''x'')) \<and>
   app_get_text_for_topic (''Intro\<newline>ab\<newline>Chap\<newline>'' @ replicate 100 (CHR ''x'')) ''Intro''
      [''Intro'', ''Chap''] \<noteq> Inr (''Intro\<newline>ab\<newline>Chap\<newline>'' @ replicate 100 (CHR ''x''))"
proof -
  let ?ft = "''Intro\<newline>ab\<newline>Chap\<newline>'' @ replicate 100 (CHR ''x'')"
  have r: "app_get_text_for_topic ?ft ''Intro'' [''Intro'', ''Chap''] = Inr ''Intro\<newline>ab\<newline>''"
    by code_simp
  have "length ''Intro\<newline>ab\<newline>'' \<noteq> length ?ft"
    by simp
  then have "''Intro\<newline>ab\<newline>'' \<noteq> ?ft"
    by metis
  then show ?thesis
    unfolding r by simp
qed

text \<open>
  C5 (as amended). On the text \<open>Intro\nhello world\nChapter2\nbye\<close> with the selection
  \<open>Intro\<close> and the titles \<open>Intro\<close>, \<open>Chapter2\<close>, the locator of
  \<open>summarizer_backend.py\<close> returns \<open>hello world\<close> (the section is stripped, so there is
  no final line feed), and the locator of \<open>app.py\<close> returns \<open>Intro\nhello world\n\<close>
  (the heading is part of the section).
\<close>

theorem intro_scenario:
  "backend_get_text_for_topic ''Intro\<newline>hello world\<newline>Chapter2\<newline>bye'' ''Intro''
      [''Intro'', ''Chapter2''] = ''hello world'' \<and>
   app_get_text_for_topic ''Intro\<newline>hello world\<newline>Chapter2\<newline>bye'' ''Intro''
      [''Intro'', ''Chapter2''] = Inr ''Intro\<newline>hello world\<newline>''"
  by code_simp

text \<open>C5 fails as stated: neither locator returns \<open>hello world\n\<close>.\<close>

theorem intro_scenario_not_as_claimed:
  "backend_get_text_for_topic ''Intro\<newline>hello world\<newline>Chapter2\<newline>bye'' ''Intro''
      [''Intro'', ''Chapter2''] \<noteq> ''hello world\<newline>'' \<and>
   app_get_text_for_topic ''Intro\<newline>hello world\<newline>Chapter2\<newline>bye'' ''Intro''
      [''Intro'', ''Chapter2''] \<noteq> Inr ''hello world\<newline>''"
  by code_simp




subsection \<open>Quiz validation\<close>

text \<open>
  C8 (as amended). The validation of \<open>qna.py\<close> for the type \<open>mcq\<close> returns the parsed
  list when every item is an object with the members \<open>question\<close>, \<open>options\<close> and
  \<open>correct_answer\<close>, and returns the empty list when some item has no
  \<open>correct_answer\<close> (because it lacks the member or is not an object); it returns
  the whole list or the empty list, never a part. \<open>app.py\<close> does not inspect the
  items: it keeps every list that is not empty.
\<close>

theorem mcq_validation:
  "((\<forall>q\<in>set qs. \<exists>members. q = JObject members \<and>
        {''question'', ''options'', ''correct_answer''} \<subseteq> fst ` set members) \<longrightarrow>
      qna_questions ''mcq'' (Some (JArray qs)) = qs) \<and>
   ((\<exists>q\<in>set qs. \<forall>members. q = JObject members \<longrightarrow>
        ''correct_answer'' \<notin> fst ` set members) \<longrightarrow>
      qna_questions ''mcq'' (Some (JArray qs)) = []) \<and>
   (qna_questions ''mcq'' (Some (JArray qs)) = qs \<or>
    qna_questions ''mcq'' (Some (JArray qs)) = []) \<and>
   (qs \<noteq> [] \<longrightarrow> app_quiz (Some (JArray qs)) = Inr qs)"
proof (intro conjI impI)
  assume ok: "\<forall>q\<in>set qs. \<exists>members. q = JObject members \<and>
        {''question'', ''options'', ''correct_answer''} \<subseteq> fst ` set members"
  have "list_all (\<lambda>q. dict_has ''question'' q \<and> dict_has ''options'' q \<and>
                               dict_has ''correct_answer'' q) qs"
    unfolding list_all_iff
  proof
    fix q assume "q \<in> set qs"
    with ok obtain members where "q = JObject members"
       "{''question'', ''options'', ''correct_answer''} \<subseteq> fst ` set members"
      by blast
    then show "dict_has ''question'' q \<and> dict_has ''options'' q \<and>
        dict_has ''correct_answer'' q"
      by (simp add: dict_has_def)
  qed
  then show "qna_questions ''mcq'' (Some (JArray qs)) = qs"
    by (simp add: qna_questions_def qna_validate_def)
next
  assume "\<exists>q\<in>set qs. \<forall>members. q = JObject members \<longrightarrow>
      ''correct_answer'' \<notin> fst ` set members"
  then obtain q where q: "q \<in> set qs"
    "\<forall>members. q = JObject members \<longrightarrow> ''correct_answer'' \<notin> fst ` set members"
    by blast
  have "\<not> dict_has ''correct_answer'' q"
    using q(2) by (cases q) (simp_all add: dict_has_def)
  with q(1) have "\<not> list_all (\<lambda>q. dict_has ''question'' q \<and> dict_has ''options'' q \<and>
                               dict_has ''correct_answer'' q) qs"
    by (auto simp: list_all_iff)
  then show "qna_questions ''mcq'' (Some (JArray qs)) = []"
    by (simp add: qna_questions_def qna_validate_def)
next
  show "qna_questions ''mcq'' (Some (JArray qs)) = qs \<or>
      qna_questions ''mcq'' (Some (JArray qs)) = []"
    by (simp add: qna_questions_def qna_validate_def)
next
  assume "qs \<noteq> []"
  then show "app_quiz (Some (JArray qs)) = Inr qs"
    by (simp add: app_quiz_def app_generate_questions_def)
qed

text \<open>
  C8 on two samples: a well-formed question is accepted, and a list whose second item
  has no \<open>correct_answer\<close> is rejected as a whole by \<open>qna.py\<close>.
\<close>

theorem mcq_validation_witness:
  "qna_questions ''mcq'' (Some (JArray
      [JObject [(''question'', JString ''Q1''),
                (''options'', JArray [JString ''a'', JString ''b'', JString ''c'', JString ''d'']),
                (''correct_answer'', JString ''A'')]])) =
     [JObject [(''question'', JString ''Q1''),
               (''options'', JArray [JString ''a'', JString ''b'', JString ''c'', JString ''d'']),
               (''correct_answer'', JString ''A'')]] \<and>
   qna_questions ''mcq'' (Some (JArray
      [JObject [(''question'', JString ''Q1''),
                (''options'', JArray [JString ''a'', JString ''b'', JString ''c'', JString ''d'']),
                (''correct_answer'', JString ''A'')],
       JObject [(''question'', JString ''Q2''), (''options'', JArray [])]])) = [] \<and>
   [JString ''Why?''] \<noteq> [] \<and>
   app_quiz (Some (JArray [JString ''Why?''])) = Inr [JString ''Why?'']"
proof -
  let ?good = "JObject [(''question'', JString ''Q1''),
                (''options'', JArray [JString ''a'', JString ''b'', JString ''c'', JString ''d'']),
                (''correct_answer'', JString ''A'')]"
  let ?bad = "JObject [(''question'', JString ''Q2''), (''options'', JArray [])]"
  have ok: "\<forall>q\<in>set [?good]. \<exists>members. q = JObject members \<and>
        {''question'', ''options'', ''correct_answer''} \<subseteq> fst ` set members"
    by simp
  have lacks: "\<exists>q\<in>set [?good, ?bad]. \<forall>members. q = JObject members \<longrightarrow>
        ''correct_answer'' \<notin> fst ` set members"
    by simp
  from mcq_validation[of "[?good]"] ok
  have a: "qna_questions ''mcq'' (Some (JArray [?good])) = [?good]"
    by blast
  from mcq_validation[of "[?good, ?bad]"] lacks
  have b: "qna_questions ''mcq'' (Some (JArray [?good, ?bad])) = []"
    by blast
  have c: "[JString ''Why?''] \<noteq> []"
    by simp
  from mcq_validation[of "[JString ''Why?'']"] c
  have d: "app_quiz (Some (JArray [JString ''Why?''])) = Inr [JString ''Why?'']"
    by blast
  from a b c d show ?thesis
    by blast
qed

text \<open>
  C8 fails as stated on \<open>app.py\<close>: a list whose only item has no \<open>correct_answer\<close> is
  kept as the quiz, while \<open>qna.py\<close> rejects it.
\<close>

theorem app_keeps_malformed_quiz:
  "app_quiz (Some (JArray [JObject [(''question'', JString ''Q2''), (''options'', JArray [])]])) =
     Inr [JObject [(''question'', JString ''Q2''), (''options'', JArray [])]] \<and>
   \<not> dict_has ''correct_answer'' (JObject [(''question'', JString ''Q2''), (''options'', JArray [])]) \<and>
   qna_questions ''mcq''
     (Some (JArray [JObject [(''question'', JString ''Q2''), (''options'', JArray [])]])) = []"
  by (simp add: app_quiz_def app_generate_questions_def dict_has_def qna_questions_def
      qna_validate_def)

end
